theory Spec2Isabelle
  imports Main "HOL-Library.Word"
begin

unbundle bit_operations_syntax

section \<open>The port registry of BasePort.cpp\<close>

subsection \<open>Constants and types of the absent headers\<close>

text \<open>
  Modelled from the spec: \<^verbatim>\<open>BoardIO.h\<close> is not among the sources; the spec gives the
  board capacity as 16 ("small integer id, capacity 16", "board id in [0,16)").
\<close>

definition MAX_BOARDS :: nat where
  "MAX_BOARDS = 16"

text \<open>
  Modelled from the spec: \<^verbatim>\<open>BasePort.h\<close> is not among the sources. The spec lists the
  protocol modes as SEQUENTIAL, SEQUENTIAL-READ+BROADCAST-WRITE, BROADCAST-ALL and the
  transports as native bus, raw frame, datagram. A C++ enumeration is an integer that can
  hold values beside its enumerators, so both types are \<open>int\<close> and the enumerators are
  numbered in that order.
\<close>

type_synonym ProtocolType = int

definition PROTOCOL_SEQ_RW :: ProtocolType where
  "PROTOCOL_SEQ_RW = 0"

definition PROTOCOL_SEQ_R_BC_W :: ProtocolType where
  "PROTOCOL_SEQ_R_BC_W = 1"

definition PROTOCOL_BC_QRW :: ProtocolType where
  "PROTOCOL_BC_QRW = 2"

type_synonym PortType = int

definition PORT_FIREWIRE :: PortType where
  "PORT_FIREWIRE = 0"

definition PORT_ETH_RAW :: PortType where
  "PORT_ETH_RAW = 1"

definition PORT_ETH_UDP :: PortType where
  "PORT_ETH_UDP = 2"

text \<open>
  What is inserted into the debug stream \<^verbatim>\<open>outStr\<close>: a string literal, an \<^verbatim>\<open>int\<close>
  (also an enumeration value), an \<^verbatim>\<open>unsigned char\<close> (which a stream prints as a
  character), or \<^verbatim>\<open>std::endl\<close>.
\<close>

datatype out_item = OutStr string | OutInt int | OutChar "8 word" | OutEndl

text \<open>
  Boards live outside the port; the port stores pointers to them. An address is a natural
  number, a nullable pointer is an \<open>option\<close>, and the boards are an explicit store.
  \<^verbatim>\<open>BoardId\<close> is read into an \<^verbatim>\<open>int\<close> by \<^verbatim>\<open>AddBoard\<close>; \<^verbatim>\<open>port\<close> is the
  back-reference to the owning port.
\<close>

type_synonym addr = nat

record BoardIO =
  BoardId :: int
  port :: "addr option"

type_synonym board_store = "addr \<Rightarrow> BoardIO"

text \<open>
  The members that the constructor of \<^verbatim>\<open>BasePort\<close> initialises. The arrays are functions
  from the index; only the indices below the array's size are ever read or written. The
  counters and the mask are \<^verbatim>\<open>unsigned int\<close>. A member whose name ends in an underscore
  (\<^verbatim>\<open>Protocol_\<close>, \<^verbatim>\<open>NumOfBoards_\<close>, \<^verbatim>\<open>BoardInUseMask_\<close>, ...) has a prime in its
  place here, since an identifier cannot end in an underscore.
\<close>

record BasePort =
  outStr :: "out_item list"
  Protocol' :: ProtocolType
  IsAllBoardsBroadcastCapable' :: bool
  IsAllBoardsBroadcastShorterWait' :: bool
  IsNoBoardsBroadcastShorterWait' :: bool
  ReadSequence' :: "32 word"
  PortNum :: int
  NumOfNodes' :: "32 word"
  NumOfBoards' :: "32 word"
  BoardInUseMask' :: "32 word"
  HubBoard :: nat
  BoardExists :: "nat \<Rightarrow> bool"
  BoardList :: "nat \<Rightarrow> addr option"
  FirmwareVersion :: "nat \<Rightarrow> nat"
  Board2Node :: "nat \<Rightarrow> nat"
  Node2Board :: "nat \<Rightarrow> nat"

subsection \<open>BasePort::BasePort\<close>

text \<open>
  The two loops of the constructor. \<open>MAX_NODES\<close> is declared in the absent
  \<^verbatim>\<open>BasePort.h\<close> and the spec gives no value for it, so it is a parameter.
\<close>

function init_boards :: "nat \<Rightarrow> nat \<Rightarrow> BasePort \<Rightarrow> BasePort" where
  "init_boards MAX_NODES i p =
     (if i < MAX_BOARDS
      then init_boards MAX_NODES (i + 1)
             (p\<lparr>BoardExists := (BoardExists p)(i := False),
                BoardList := (BoardList p)(i := None),
                FirmwareVersion := (FirmwareVersion p)(i := 0),
                Board2Node := (Board2Node p)(i := MAX_NODES)\<rparr>)
      else p)"
  by pat_completeness auto
termination
  by (relation "measure (\<lambda>(n, i, p). MAX_BOARDS - i)") auto

function init_nodes :: "nat \<Rightarrow> nat \<Rightarrow> BasePort \<Rightarrow> BasePort" where
  "init_nodes MAX_NODES i p =
     (if i < MAX_NODES
      then init_nodes MAX_NODES (i + 1) (p\<lparr>Node2Board := (Node2Board p)(i := MAX_BOARDS)\<rparr>)
      else p)"
  by pat_completeness auto
termination
  by (relation "measure (\<lambda>(n, i, p). n - i)") auto

text \<open>
  \<open>raw\<close> is the storage of the object before construction: the member initialisers
  overwrite the scalars, the loops the array elements.
\<close>

definition BasePort_ctor :: "nat \<Rightarrow> BasePort \<Rightarrow> int \<Rightarrow> out_item list \<Rightarrow> BasePort" where
  "BasePort_ctor MAX_NODES raw pn ostr =
     init_nodes MAX_NODES 0
       (init_boards MAX_NODES 0
          (raw\<lparr>outStr := ostr,
               Protocol' := PROTOCOL_SEQ_RW,
               IsAllBoardsBroadcastCapable' := False,
               IsAllBoardsBroadcastShorterWait' := False,
               IsNoBoardsBroadcastShorterWait' := True,
               ReadSequence' := 0,
               PortNum := pn,
               NumOfNodes' := 0,
               NumOfBoards' := 0,
               BoardInUseMask' := 0,
               HubBoard := MAX_BOARDS\<rparr>))"

subsection \<open>BasePort::SetProtocol\<close>

definition broadcast_error :: "out_item list" where
  "broadcast_error =
     [OutStr ''***Error: not all boards support broadcasting, '', OutEndl,
      OutStr ''          please upgrade your firmware'', OutEndl]"

definition SetProtocol :: "ProtocolType \<Rightarrow> BasePort \<Rightarrow> BasePort" where
  "SetProtocol prot p =
     (if \<not> IsAllBoardsBroadcastCapable' p \<and> prot \<noteq> PROTOCOL_SEQ_RW
      then p\<lparr>outStr := outStr p @ broadcast_error\<rparr>
      else if prot = PROTOCOL_SEQ_RW
      then p\<lparr>outStr := outStr p @ [OutStr ''System running in NON broadcast mode'', OutEndl],
             Protocol' := prot\<rparr>
      else if prot = PROTOCOL_SEQ_R_BC_W
      then p\<lparr>outStr := outStr p @ [OutStr ''System running with broadcast write'', OutEndl],
             Protocol' := prot\<rparr>
      else if prot = PROTOCOL_BC_QRW
      then p\<lparr>outStr := outStr p @
                 [OutStr ''System running with broadcast query, read, and write'', OutEndl],
             Protocol' := prot\<rparr>
      else p\<lparr>outStr := outStr p @ [OutStr ''Unknown protocol (ignored): '', OutInt prot, OutEndl]\<rparr>)"

subsection \<open>BasePort::AddBoard and BasePort::RemoveBoard\<close>

text \<open>
  \<open>this\<close> is the address of the port, \<open>board\<close> the address of the board (the source
  dereferences it at once, so it is not null), \<open>p\<close> the port and \<open>h\<close> the boards.
  The result is the returned flag, the port and the boards.
\<close>

definition AddBoard ::
    "addr \<Rightarrow> addr \<Rightarrow> BasePort \<Rightarrow> board_store \<Rightarrow> bool \<times> BasePort \<times> board_store" where
  "AddBoard this board p h =
     (let id = BoardId (h board) in
      if id < 0 \<or> id \<ge> int MAX_BOARDS
      then (False,
            p\<lparr>outStr := outStr p @
                 [OutStr ''BasePort::AddBoard: board number out of range: '', OutInt id, OutEndl]\<rparr>,
            h)
      else (True,
            p\<lparr>BoardList := (BoardList p)(nat id := Some board),
              BoardInUseMask' := BoardInUseMask' p OR push_bit (nat id) 1,
              NumOfBoards' := NumOfBoards' p + 1\<rparr>,
            h(board := (h board)\<lparr>port := Some this\<rparr>)))"

definition RemoveBoard ::
    "8 word \<Rightarrow> BasePort \<Rightarrow> board_store \<Rightarrow> bool \<times> BasePort \<times> board_store" where
  "RemoveBoard boardId p h =
     (if unat boardId \<ge> MAX_BOARDS
      then (False,
            p\<lparr>outStr := outStr p @
                 [OutStr ''BasePort::RemoveBoard: board number out of range: '',
                  OutChar boardId, OutEndl]\<rparr>,
            h)
      else case BoardList p (unat boardId) of
             None \<Rightarrow>
               (False,
                p\<lparr>outStr := outStr p @
                     [OutStr ''BasePort::RemoveBoard: board not found: '',
                      OutChar boardId, OutEndl]\<rparr>,
                h)
           | Some board \<Rightarrow>
               (True,
                p\<lparr>BoardInUseMask' := BoardInUseMask' p AND NOT (push_bit (unat boardId) 1),
                  BoardList := (BoardList p)(unat boardId := None),
                  NumOfBoards' := NumOfBoards' p - 1\<rparr>,
                h(board := (h board)\<lparr>port := None\<rparr>)))"

subsection \<open>BasePort::PortTypeString\<close>

definition PortTypeString :: "PortType \<Rightarrow> string" where
  "PortTypeString portType =
     (if portType = PORT_FIREWIRE then ''Firewire''
      else if portType = PORT_ETH_RAW then ''Ethernet-Raw''
      else if portType = PORT_ETH_UDP then ''Ethernet-UDP''
      else ''Unknown'')"

subsection \<open>EthBasePort::NumberOfUsers\<close>

text \<open>The port of the bridged transport is a \<^verbatim>\<open>BasePort\<close>; the method reads none of it.\<close>

definition NumberOfUsers :: "BasePort \<Rightarrow> int" where
  "NumberOfUsers p = 1"

subsection \<open>BasePort::ParseOptions\<close>

text \<open>
  \<^verbatim>\<open>sscanf(s, "%d", &n)\<close> of the C library, on the characters of \<open>s\<close> before its
  terminating NUL: white space is skipped, then an optional sign and the longest run of
  decimal digits is read. With no digit nothing is stored and the call returns 0 or
  \<^verbatim>\<open>EOF\<close>, which the source does not tell apart (it tests \<^verbatim>\<open>== 1\<close>). With a digit
  the call returns 1 whatever the size of the number: the library converts the digits
  as \<^verbatim>\<open>strtol\<close> does, to a 64-bit \<^verbatim>\<open>long\<close> that saturates at \<^verbatim>\<open>LONG_MIN\<close> and
  \<^verbatim>\<open>LONG_MAX\<close>, and stores that \<^verbatim>\<open>long\<close> converted to \<^verbatim>\<open>int\<close>, which keeps its low
  32 bits. So "2147483648" is stored as -2147483648, "99999999999" as 1215752191 and
  "99999999999999999999" as -1.
\<close>

definition isspace :: "char \<Rightarrow> bool" where
  "isspace c = (c \<in> set [CHR '' '', CHR 0x09, CHR 0x0A, CHR 0x0B, CHR 0x0C, CHR 0x0D])"

definition isdigit :: "char \<Rightarrow> bool" where
  "isdigit c = (c \<in> set ''0123456789'')"

text \<open>The digits accumulated from the left, each step ten times the number so far plus
  the digit.\<close>

definition dec_value :: "string \<Rightarrow> int" where
  "dec_value ds = foldl (\<lambda>a c. 10 * a + (of_char c - 48)) 0 ds"

definition INT_MAX :: int where
  "INT_MAX = 2147483647"

definition LONG_MAX :: int where
  "LONG_MAX = 9223372036854775807"

definition LONG_MIN :: int where
  "LONG_MIN = - 9223372036854775808"

definition strtol_value :: "int \<Rightarrow> int" where
  "strtol_value n = (if n < LONG_MIN then LONG_MIN else if LONG_MAX < n then LONG_MAX else n)"

definition int_of_long :: "int \<Rightarrow> int" where
  "int_of_long n = sint (word_of_int n :: 32 word)"

datatype scan_result = Converted int | NoConversion

definition sscanf_d :: "string \<Rightarrow> scan_result" where
  "sscanf_d s =
     (let s1 = dropWhile isspace s;
          neg = (s1 \<noteq> [] \<and> hd s1 = CHR ''-'');
          s2 = (if s1 \<noteq> [] \<and> (hd s1 = CHR ''-'' \<or> hd s1 = CHR ''+'') then tl s1 else s1);
          ds = takeWhile isdigit s2;
          n = (if neg then - dec_value ds else dec_value ds)
      in if ds = [] then NoConversion
         else Converted (int_of_long (strtol_value n)))"

text \<open>
  The three reference parameters of \<^verbatim>\<open>ParseOptions\<close>: they hold the caller's values on
  entry and are returned with what the call has assigned.
\<close>

record parse_vars =
  portType :: PortType
  portNum :: int
  IPaddr :: string

text \<open>\<^verbatim>\<open>return (sscanf(s, "%d", &portNum) == 1)\<close>\<close>

definition scan_portNum :: "string \<Rightarrow> parse_vars \<Rightarrow> bool \<times> parse_vars" where
  "scan_portNum s v =
     (case sscanf_d s of
        Converted n \<Rightarrow> (True, v\<lparr>portNum := n\<rparr>)
      | NoConversion \<Rightarrow> (False, v))"

text \<open>
  \<open>arg\<close> holds the characters before the terminating NUL, so \<^verbatim>\<open>strncmp(arg, "fw", 2) == 0\<close>
  is \<open>take 2 arg = ''fw''\<close>, \<^verbatim>\<open>arg+k\<close> is \<open>drop k arg\<close> and \<^verbatim>\<open>strlen\<close> is \<open>length\<close>.
\<close>

definition ParseOptions :: "string \<Rightarrow> parse_vars \<Rightarrow> bool \<times> parse_vars" where
  "ParseOptions arg v =
     (if take 2 arg = ''fw''
      then scan_portNum (drop 2 arg) (v\<lparr>portType := PORT_FIREWIRE\<rparr>)
      else if take 3 arg = ''eth''
      then scan_portNum (drop 3 arg) (v\<lparr>portType := PORT_ETH_RAW\<rparr>)
      else if take 3 arg = ''udp''
      then (if length (drop 3 arg) \<ge> 8
            then (True, v\<lparr>portType := PORT_ETH_UDP, IPaddr := drop 5 arg\<rparr>)
            else (True, v\<lparr>portType := PORT_ETH_UDP\<rparr>))
      else scan_portNum arg (v\<lparr>portType := PORT_FIREWIRE\<rparr>))"

text \<open>
  The number that a string of decimal digits denotes, as positional notation defines it:
  the digit at distance \<open>k\<close> from the right counts \<open>10 ^ k\<close> times its value, and the
  value of a digit is its place in "0123456789".
\<close>

definition digit_of :: "char \<Rightarrow> nat" where
  "digit_of c = length (takeWhile (\<lambda>d. d \<noteq> c) ''0123456789'')"

fun digits_value :: "string \<Rightarrow> nat" where
  "digits_value [] = 0"
| "digits_value (c # cs) = digit_of c * 10 ^ length cs + digits_value cs"

text \<open>
  The spec's "numeric field", read as \<^verbatim>\<open>%d\<close> reads it: optional white space, an optional
  sign, and at least one decimal digit.
\<close>

definition leading_numeric :: "string \<Rightarrow> bool" where
  "leading_numeric s =
     (\<exists>ws sg ds rest. s = ws @ sg @ ds @ rest \<and> (\<forall>c \<in> set ws. isspace c) \<and>
        (sg = [] \<or> sg = ''+'' \<or> sg = ''-'') \<and> ds \<noteq> [] \<and> (\<forall>c \<in> set ds. isdigit c))"

subsection \<open>The registry invariant and example states\<close>

text \<open>The in-use bit of a board id is set exactly when its slot holds a handle.\<close>

definition registry_inv :: "BasePort \<Rightarrow> bool" where
  "registry_inv p =
     (\<forall>i < MAX_BOARDS. bit (BoardInUseMask' p) i \<longleftrightarrow> BoardList p i \<noteq> None)"

text \<open>The number of slots that hold a handle.\<close>

definition occupied_slots :: "BasePort \<Rightarrow> nat" where
  "occupied_slots p = length (filter (\<lambda>i. BoardList p i \<noteq> None) [0..<MAX_BOARDS])"

text \<open>An arbitrary object storage, a port constructed in it, and boards with id 3 at
  addresses 1 and 2 and with id 16 at address 3.\<close>

definition raw_storage :: BasePort where
  "raw_storage =
     \<lparr>outStr = [], Protocol' = 7, IsAllBoardsBroadcastCapable' = True,
      IsAllBoardsBroadcastShorterWait' = True, IsNoBoardsBroadcastShorterWait' = False,
      ReadSequence' = 5, PortNum = 9, NumOfNodes' = 4, NumOfBoards' = 3,
      BoardInUseMask' = 255, HubBoard = 2, BoardExists = (\<lambda>_. True),
      BoardList = (\<lambda>i. Some i), FirmwareVersion = (\<lambda>_. 1), Board2Node = (\<lambda>_. 0),
      Node2Board = (\<lambda>_. 0)\<rparr>"

definition fresh_port :: BasePort where
  "fresh_port = BasePort_ctor 64 raw_storage 0 []"

definition example_boards :: board_store where
  "example_boards =
     (\<lambda>a. if a = 3 then \<lparr>BoardId = 16, port = None\<rparr> else \<lparr>BoardId = 3, port = None\<rparr>)"

text \<open>The port after board 1 was added, and after board 2 (same id) was added too.\<close>

definition occupied_port :: BasePort where
  "occupied_port = fst (snd (AddBoard 100 1 fresh_port example_boards))"

definition occupied_boards :: board_store where
  "occupied_boards = snd (snd (AddBoard 100 1 fresh_port example_boards))"

definition readded_port :: BasePort where
  "readded_port = fst (snd (AddBoard 100 2 occupied_port occupied_boards))"

definition readded_boards :: board_store where
  "readded_boards = snd (snd (AddBoard 100 2 occupied_port occupied_boards))"

section \<open>Properties\<close>

subsection \<open>Protocol mode\<close>

text \<open>
  C1. A request for a mode other than SEQUENTIAL while not all boards are
  broadcast-capable appends the error message and keeps the stored mode; a value that is
  none of the three modes keeps the stored mode; the stored mode changes only when the
  guard passes and the value is one of the three modes, and whenever both hold the
  requested mode is stored.
\<close>

theorem SetProtocol_guarded:
  "(\<not> IsAllBoardsBroadcastCapable' p \<and> prot \<noteq> PROTOCOL_SEQ_RW \<longrightarrow>
      Protocol' (SetProtocol prot p) = Protocol' p \<and>
      outStr (SetProtocol prot p) = outStr p @ broadcast_error) \<and>
   (prot \<notin> {PROTOCOL_SEQ_RW, PROTOCOL_SEQ_R_BC_W, PROTOCOL_BC_QRW} \<longrightarrow>
      Protocol' (SetProtocol prot p) = Protocol' p) \<and>
   (Protocol' (SetProtocol prot p) \<noteq> Protocol' p \<longrightarrow>
      (IsAllBoardsBroadcastCapable' p \<or> prot = PROTOCOL_SEQ_RW) \<and>
      prot \<in> {PROTOCOL_SEQ_RW, PROTOCOL_SEQ_R_BC_W, PROTOCOL_BC_QRW}) \<and>
   ((IsAllBoardsBroadcastCapable' p \<or> prot = PROTOCOL_SEQ_RW) \<and>
      prot \<in> {PROTOCOL_SEQ_RW, PROTOCOL_SEQ_R_BC_W, PROTOCOL_BC_QRW} \<longrightarrow>
      Protocol' (SetProtocol prot p) = prot)"
  by (simp add: SetProtocol_def)

theorem SetProtocol_guarded_witness:
  "Protocol' (SetProtocol PROTOCOL_BC_QRW (raw_storage\<lparr>IsAllBoardsBroadcastCapable' := False\<rparr>)) = 7 \<and>
   outStr (SetProtocol PROTOCOL_BC_QRW (raw_storage\<lparr>IsAllBoardsBroadcastCapable' := False\<rparr>)) =
     broadcast_error \<and>
   Protocol' (SetProtocol 9 raw_storage) = 7 \<and>
   Protocol' (SetProtocol PROTOCOL_BC_QRW raw_storage) = PROTOCOL_BC_QRW"
  using SetProtocol_guarded [of "raw_storage\<lparr>IsAllBoardsBroadcastCapable' := False\<rparr>" PROTOCOL_BC_QRW]
    SetProtocol_guarded [of raw_storage 9]
    SetProtocol_guarded [of raw_storage PROTOCOL_BC_QRW]
  by (simp add: raw_storage_def PROTOCOL_SEQ_RW_def PROTOCOL_SEQ_R_BC_W_def PROTOCOL_BC_QRW_def)

subsection \<open>Port-type names and the user count\<close>

text \<open>
  C9. The name lookup gives "Firewire", "Ethernet-Raw" and "Ethernet-UDP" for the three
  kinds and "Unknown" for every other value.
\<close>

theorem PortTypeString_total:
  "PortTypeString PORT_FIREWIRE = ''Firewire'' \<and>
   PortTypeString PORT_ETH_RAW = ''Ethernet-Raw'' \<and>
   PortTypeString PORT_ETH_UDP = ''Ethernet-UDP'' \<and>
   (pt \<notin> {PORT_FIREWIRE, PORT_ETH_RAW, PORT_ETH_UDP} \<longrightarrow>
      PortTypeString pt = ''Unknown'')"
  by (simp add: PortTypeString_def PORT_FIREWIRE_def PORT_ETH_RAW_def PORT_ETH_UDP_def)

theorem PortTypeString_total_witness:
  "PortTypeString 3 = ''Unknown'' \<and> PortTypeString (- 1) = ''Unknown''"
  using PortTypeString_total [of 3] PortTypeString_total [of "- 1"]
  by (simp add: PORT_FIREWIRE_def PORT_ETH_RAW_def PORT_ETH_UDP_def)

text \<open>
  C8. The user count of the bridged transport is 1 in every state of the port.
\<close>

theorem NumberOfUsers_fixed: "NumberOfUsers p = 1"
  by (simp add: NumberOfUsers_def)

subsection \<open>The registry invariant\<close>

declare init_boards.simps [simp del] init_nodes.simps [simp del]

lemma mask_set_bit: "bit ((m :: 32 word) OR 2 ^ k) i \<longleftrightarrow> bit m i \<or> (i = k \<and> k < 32)"
  by (auto simp add: bit_simps)

lemma mask_clear_bit: "bit ((m :: 32 word) AND NOT (2 ^ k)) i \<longleftrightarrow> bit m i \<and> i \<noteq> k"
  by (auto simp add: bit_simps dest: bit_imp_le_length)

lemma mask_set_clear:
  "\<not> bit (m :: 32 word) k \<Longrightarrow> (m OR 2 ^ k) AND NOT (2 ^ k) = m"
  by (rule bit_eqI) (auto simp add: mask_set_bit mask_clear_bit)

lemma init_boards_mask: "BoardInUseMask' (init_boards n i p) = BoardInUseMask' p"
  by (induction n i p rule: init_boards.induct) (subst init_boards.simps, simp)

lemma init_boards_list:
  "BoardList (init_boards n i p) j = (if i \<le> j \<and> j < MAX_BOARDS then None else BoardList p j)"
proof (induction n i p rule: init_boards.induct)
  case (1 n i p)
  show ?case
  proof (cases "i < MAX_BOARDS")
    case True
    with 1 show ?thesis by (subst init_boards.simps) auto
  next
    case False
    then show ?thesis by (subst init_boards.simps) auto
  qed
qed

lemma init_nodes_mask: "BoardInUseMask' (init_nodes n i p) = BoardInUseMask' p"
  by (induction n i p rule: init_nodes.induct) (subst init_nodes.simps, simp)

lemma init_nodes_list: "BoardList (init_nodes n i p) = BoardList p"
  by (induction n i p rule: init_nodes.induct) (subst init_nodes.simps, simp)

lemma ctor_mask: "BoardInUseMask' (BasePort_ctor n raw pn ostr) = 0"
  by (simp add: BasePort_ctor_def init_nodes_mask init_boards_mask)

lemma ctor_list: "j < MAX_BOARDS \<Longrightarrow> BoardList (BasePort_ctor n raw pn ostr) j = None"
  by (simp add: BasePort_ctor_def init_nodes_list init_boards_list)

text \<open>
  C4. The in-use bit of every board id below 16 is set exactly when its slot holds a
  handle: in the constructed port, and after every AddBoard and RemoveBoard call made in
  a state where it holds, whatever the call returns.
\<close>

theorem registry_inv_holds:
  "registry_inv (BasePort_ctor n raw pn ostr) \<and>
   (registry_inv p \<longrightarrow> registry_inv (fst (snd (AddBoard this board p h)))) \<and>
   (registry_inv p \<longrightarrow> registry_inv (fst (snd (RemoveBoard boardId p h))))"
proof (intro conjI impI)
  show "registry_inv (BasePort_ctor n raw pn ostr)"
    by (simp add: registry_inv_def ctor_mask ctor_list)
next
  assume "registry_inv p"
  then show "registry_inv (fst (snd (AddBoard this board p h)))"
    by (auto simp add: registry_inv_def AddBoard_def Let_def mask_set_bit MAX_BOARDS_def)
next
  assume "registry_inv p"
  then show "registry_inv (fst (snd (RemoveBoard boardId p h)))"
    by (auto simp add: registry_inv_def RemoveBoard_def mask_clear_bit MAX_BOARDS_def
        split: option.splits)
qed

theorem registry_inv_holds_witness:
  "registry_inv fresh_port \<and>
   registry_inv (fst (snd (AddBoard 100 1 fresh_port example_boards))) \<and>
   registry_inv (fst (snd (AddBoard 100 3 fresh_port example_boards))) \<and>
   registry_inv (fst (snd (RemoveBoard 3 fresh_port example_boards)))"
  using registry_inv_holds [of 64 raw_storage 0 "[]" fresh_port 100 1 example_boards 3]
    registry_inv_holds [of 64 raw_storage 0 "[]" fresh_port 100 3 example_boards 3]
  by (simp add: fresh_port_def)

subsection \<open>Adding and removing boards\<close>

lemma unat_count_Suc: "unat (n :: 32 word) < 4294967295 \<Longrightarrow> unat (n + 1) = unat n + 1"
  by (simp add: unat_word_ariths)

lemma occupied_slots_cong:
  "(\<And>i. i < MAX_BOARDS \<Longrightarrow> (BoardList q i \<noteq> None) = (BoardList p i \<noteq> None)) \<Longrightarrow>
   occupied_slots q = occupied_slots p"
  unfolding occupied_slots_def
  by (rule arg_cong [where f = length], rule filter_cong) auto

lemma init_boards_count: "NumOfBoards' (init_boards n i p) = NumOfBoards' p"
  by (induction n i p rule: init_boards.induct) (subst init_boards.simps, simp)

lemma init_nodes_count: "NumOfBoards' (init_nodes n i p) = NumOfBoards' p"
  by (induction n i p rule: init_nodes.induct) (subst init_nodes.simps, simp)

lemma init_boards_outStr: "outStr (init_boards n i p) = outStr p"
  by (induction n i p rule: init_boards.induct) (subst init_boards.simps, simp)

lemma init_nodes_outStr: "outStr (init_nodes n i p) = outStr p"
  by (induction n i p rule: init_nodes.induct) (subst init_nodes.simps, simp)

lemma ctor_count: "NumOfBoards' (BasePort_ctor n raw pn ostr) = 0"
  by (simp add: BasePort_ctor_def init_nodes_count init_boards_count)

lemma ctor_outStr: "outStr (BasePort_ctor n raw pn ostr) = ostr"
  by (simp add: BasePort_ctor_def init_nodes_outStr init_boards_outStr)

lemma fresh_port_simps:
  "NumOfBoards' fresh_port = 0" "BoardInUseMask' fresh_port = 0" "outStr fresh_port = []"
  "i < MAX_BOARDS \<Longrightarrow> BoardList fresh_port i = None"
  by (simp_all add: fresh_port_def ctor_count ctor_mask ctor_outStr ctor_list)

lemma occupied_port_simps:
  "NumOfBoards' occupied_port = 1" "BoardInUseMask' occupied_port = 8"
  "outStr occupied_port = []"
  "i < MAX_BOARDS \<Longrightarrow> BoardList occupied_port i = (if i = 3 then Some 1 else None)"
  "occupied_boards (Suc 0) = \<lparr>BoardId = 3, port = Some 100\<rparr>"
  "occupied_boards 2 = \<lparr>BoardId = 3, port = None\<rparr>"
  by (simp_all add: occupied_port_def occupied_boards_def AddBoard_def Let_def example_boards_def
      fresh_port_simps MAX_BOARDS_def)

lemma occupied_slots_occupied_port: "occupied_slots occupied_port = 1"
  by code_simp

lemma init_boards_exists:
  "BoardExists (init_boards n i p) j = (if i \<le> j \<and> j < MAX_BOARDS then False else BoardExists p j)"
proof (induction n i p rule: init_boards.induct)
  case (1 n i p)
  show ?case
  proof (cases "i < MAX_BOARDS")
    case True
    with 1 show ?thesis by (subst init_boards.simps) auto
  next
    case False
    then show ?thesis by (subst init_boards.simps) auto
  qed
qed

lemma init_nodes_exists: "BoardExists (init_nodes n i p) = BoardExists p"
  by (induction n i p rule: init_nodes.induct) (subst init_nodes.simps, simp)

lemma ctor_exists: "j < MAX_BOARDS \<Longrightarrow> \<not> BoardExists (BasePort_ctor n raw pn ostr) j"
  by (simp add: BasePort_ctor_def init_nodes_exists init_boards_exists)

lemma occupied_port_exists: "\<not> BoardExists occupied_port 3"
  by (simp add: occupied_port_def AddBoard_def Let_def example_boards_def fresh_port_def
      ctor_exists MAX_BOARDS_def)

text \<open>
  C6. For a board whose id is in [0,16), AddBoard returns true, stores the handle in the
  slot of that id, sets the board's back-reference to this port, sets the in-use bit and
  adds one to the board count; for an id outside [0,16) it returns false.
\<close>

theorem AddBoard_post:
  "(0 \<le> BoardId (h board) \<and> BoardId (h board) < int MAX_BOARDS \<longrightarrow>
      (case AddBoard this board p h of (r, q, h') \<Rightarrow>
         r \<and> BoardList q (nat (BoardId (h board))) = Some board \<and>
         port (h' board) = Some this \<and>
         bit (BoardInUseMask' q) (nat (BoardId (h board))) \<and>
         NumOfBoards' q = NumOfBoards' p + 1)) \<and>
   (BoardId (h board) < 0 \<or> int MAX_BOARDS \<le> BoardId (h board) \<longrightarrow>
      \<not> fst (AddBoard this board p h))"
  by (auto simp add: AddBoard_def Let_def mask_set_bit MAX_BOARDS_def)

theorem AddBoard_post_witness:
  "fst (AddBoard 100 1 fresh_port example_boards) \<and>
   BoardList (fst (snd (AddBoard 100 1 fresh_port example_boards))) 3 = Some 1 \<and>
   port (snd (snd (AddBoard 100 1 fresh_port example_boards)) 1) = Some 100 \<and>
   bit (BoardInUseMask' (fst (snd (AddBoard 100 1 fresh_port example_boards)))) 3 \<and>
   NumOfBoards' (fst (snd (AddBoard 100 1 fresh_port example_boards))) = 1 \<and>
   \<not> fst (AddBoard 100 3 fresh_port example_boards)"
  using AddBoard_post [where h = example_boards and board = 1 and this = 100 and p = fresh_port]
    AddBoard_post [where h = example_boards and board = 3 and this = 100 and p = fresh_port]
  by (simp add: example_boards_def MAX_BOARDS_def fresh_port_simps split: prod.splits)

text \<open>
  C7. RemoveBoard fails when the id is 16 or more or the slot is empty, and then nothing
  but the debug stream differs: the port is the same in every other member and the boards
  are the same. When it succeeds, the slot and the in-use bit are cleared, the
  back-reference of the board that was in the slot is null and the board count is one
  less.
\<close>

theorem RemoveBoard_post:
  "(MAX_BOARDS \<le> unat boardId \<or> BoardList p (unat boardId) = None \<longrightarrow>
      (case RemoveBoard boardId p h of (r, q, h') \<Rightarrow>
         \<not> r \<and> q\<lparr>outStr := outStr p\<rparr> = p \<and> h' = h)) \<and>
   (unat boardId < MAX_BOARDS \<and> BoardList p (unat boardId) = Some board \<longrightarrow>
      (case RemoveBoard boardId p h of (r, q, h') \<Rightarrow>
         r \<and> BoardList q (unat boardId) = None \<and> port (h' board) = None \<and>
         \<not> bit (BoardInUseMask' q) (unat boardId) \<and>
         NumOfBoards' q = NumOfBoards' p - 1))"
  by (auto simp add: RemoveBoard_def mask_clear_bit)

theorem RemoveBoard_post_witness:
  "\<not> fst (RemoveBoard 16 fresh_port example_boards) \<and>
   (fst (snd (RemoveBoard 16 fresh_port example_boards)))\<lparr>outStr := []\<rparr> = fresh_port \<and>
   snd (snd (RemoveBoard 16 fresh_port example_boards)) = example_boards \<and>
   \<not> fst (RemoveBoard 3 fresh_port example_boards) \<and>
   (fst (snd (RemoveBoard 3 fresh_port example_boards)))\<lparr>outStr := []\<rparr> = fresh_port \<and>
   snd (snd (RemoveBoard 3 fresh_port example_boards)) = example_boards \<and>
   fst (RemoveBoard 3 occupied_port occupied_boards) \<and>
   BoardList (fst (snd (RemoveBoard 3 occupied_port occupied_boards))) 3 = None \<and>
   port (snd (snd (RemoveBoard 3 occupied_port occupied_boards)) 1) = None \<and>
   \<not> bit (BoardInUseMask' (fst (snd (RemoveBoard 3 occupied_port occupied_boards)))) 3 \<and>
   NumOfBoards' (fst (snd (RemoveBoard 3 occupied_port occupied_boards))) = 0"
  using RemoveBoard_post [where boardId = 16 and p = fresh_port and h = example_boards]
    RemoveBoard_post [where boardId = 3 and p = fresh_port and h = example_boards]
    RemoveBoard_post [where boardId = 3 and p = occupied_port and h = occupied_boards and board = 1]
  by (simp add: fresh_port_simps occupied_port_simps MAX_BOARDS_def split: prod.splits)

text \<open>
  C10. AddBoard on a slot that already holds a board returns true, prints nothing, stores
  the new handle, does not clear the old board's back-reference (it is as it was, or this
  port when the same board is added again), has the in-use bit set and adds one to the
  board count, while the number of occupied slots stays the same: a count that was at
  least the number of occupied slots now exceeds it.
\<close>

theorem AddBoard_double_registration:
  "0 \<le> BoardId (h board) \<and> BoardId (h board) < int MAX_BOARDS \<and>
   BoardList p (nat (BoardId (h board))) = Some old \<longrightarrow>
     (case AddBoard this board p h of (r, q, h') \<Rightarrow>
        r \<and> BoardList q (nat (BoardId (h board))) = Some board \<and>
        outStr q = outStr p \<and>
        port (h' old) = (if old = board then Some this else port (h old)) \<and>
        bit (BoardInUseMask' q) (nat (BoardId (h board))) \<and>
        NumOfBoards' q = NumOfBoards' p + 1 \<and>
        occupied_slots q = occupied_slots p \<and>
        (occupied_slots p \<le> unat (NumOfBoards' p) \<and> unat (NumOfBoards' p) < 4294967295 \<longrightarrow>
           occupied_slots q < unat (NumOfBoards' q)))"
proof (intro impI)
  assume a: "0 \<le> BoardId (h board) \<and> BoardId (h board) < int MAX_BOARDS \<and>
    BoardList p (nat (BoardId (h board))) = Some old"
  define q where "q = p\<lparr>BoardList := (BoardList p)(nat (BoardId (h board)) := Some board),
              BoardInUseMask' := BoardInUseMask' p OR push_bit (nat (BoardId (h board))) 1,
              NumOfBoards' := NumOfBoards' p + 1\<rparr>"
  have r: "AddBoard this board p h = (True, q, h(board := (h board)\<lparr>port := Some this\<rparr>))"
    using a by (simp add: AddBoard_def Let_def q_def)
  have occ: "occupied_slots q = occupied_slots p"
    using a by (intro occupied_slots_cong) (auto simp add: q_def)
  have cnt: "unat (NumOfBoards' p) < 4294967295 \<Longrightarrow> unat (NumOfBoards' q) = unat (NumOfBoards' p) + 1"
    by (simp add: q_def unat_count_Suc)
  have b: "bit (BoardInUseMask' q) (nat (BoardId (h board)))"
    using a by (auto simp add: q_def mask_set_bit MAX_BOARDS_def)
  have f: "BoardList q (nat (BoardId (h board))) = Some board" "outStr q = outStr p"
    "NumOfBoards' q = NumOfBoards' p + 1"
    by (simp_all add: q_def)
  show "case AddBoard this board p h of (r, q, h') \<Rightarrow>
        r \<and> BoardList q (nat (BoardId (h board))) = Some board \<and>
        outStr q = outStr p \<and>
        port (h' old) = (if old = board then Some this else port (h old)) \<and>
        bit (BoardInUseMask' q) (nat (BoardId (h board))) \<and>
        NumOfBoards' q = NumOfBoards' p + 1 \<and>
        occupied_slots q = occupied_slots p \<and>
        (occupied_slots p \<le> unat (NumOfBoards' p) \<and> unat (NumOfBoards' p) < 4294967295 \<longrightarrow>
           occupied_slots q < unat (NumOfBoards' q))"
    using a occ cnt b f by (simp add: r)
qed

theorem AddBoard_double_registration_witness:
  "fst (AddBoard 100 2 occupied_port occupied_boards) \<and>
   BoardList readded_port 3 = Some 2 \<and>
   outStr readded_port = [] \<and>
   port (readded_boards 1) = Some 100 \<and>
   bit (BoardInUseMask' readded_port) 3 \<and>
   NumOfBoards' readded_port = 2 \<and>
   occupied_slots readded_port = 1 \<and>
   occupied_slots readded_port < unat (NumOfBoards' readded_port)"
  using AddBoard_double_registration [where h = occupied_boards and board = 2 and
      p = occupied_port and old = 1 and this = 100]
  by (simp add: occupied_port_simps occupied_slots_occupied_port MAX_BOARDS_def
      readded_port_def readded_boards_def split: prod.splits)

lemma mask_set_then_clear:
  "((m :: 32 word) OR 2 ^ k) AND NOT (2 ^ k) = m AND NOT (2 ^ k)"
  by (rule bit_eqI) (auto simp add: mask_set_bit mask_clear_bit)

lemma mask_clear_idem: "\<not> bit (m :: 32 word) k \<Longrightarrow> m AND NOT (2 ^ k) = m"
  by (rule bit_eqI) (auto simp add: mask_clear_bit)

text \<open>
  C3, as stated, fails when the slot is already occupied: adding board 2 to the slot of
  board 1 and removing the id again leaves the slot empty and the in-use bit clear, not
  as they were. Nor does AddBoard write \<^verbatim>\<open>BoardExists\<close>: it is still false for the id
  of board 1 after that board was added to the constructed port.
\<close>

theorem AddBoard_RemoveBoard_occupied_counterexample:
  "BoardId (occupied_boards 2) = 3 \<and>
   fst (AddBoard 100 2 occupied_port occupied_boards) \<and>
   fst (RemoveBoard 3 readded_port readded_boards) \<and>
   BoardList occupied_port 3 = Some 1 \<and>
   BoardList (fst (snd (RemoveBoard 3 readded_port readded_boards))) 3 = None \<and>
   bit (BoardInUseMask' occupied_port) 3 \<and>
   \<not> bit (BoardInUseMask' (fst (snd (RemoveBoard 3 readded_port readded_boards)))) 3 \<and>
   fst (snd (RemoveBoard 3 readded_port readded_boards)) \<noteq> occupied_port \<and>
   \<not> BoardExists occupied_port 3"
proof -
  have l: "BoardList readded_port 3 = Some 2"
    by (simp add: readded_port_def AddBoard_def Let_def occupied_port_simps MAX_BOARDS_def)
  have c: "BoardList (fst (snd (RemoveBoard 3 readded_port readded_boards))) 3 = None"
    by (simp add: RemoveBoard_def l MAX_BOARDS_def)
  have o: "BoardList occupied_port 3 = Some 1"
    by (simp add: occupied_port_simps MAX_BOARDS_def)
  from c o have "fst (snd (RemoveBoard 3 readded_port readded_boards)) \<noteq> occupied_port"
    by auto
  moreover have "bit (BoardInUseMask' occupied_port) 3"
    by (simp add: occupied_port_simps bit_numeral_simps)
  moreover have "\<not> bit (BoardInUseMask' (fst (snd (RemoveBoard 3 readded_port readded_boards)))) 3"
    using mask_clear_bit [of "BoardInUseMask' readded_port" 3 3]
    by (simp add: RemoveBoard_def l MAX_BOARDS_def)
  moreover have "fst (AddBoard 100 2 occupied_port occupied_boards)"
    by (simp add: AddBoard_def Let_def occupied_port_simps MAX_BOARDS_def)
  moreover have "fst (RemoveBoard 3 readded_port readded_boards)"
    by (simp add: RemoveBoard_def l MAX_BOARDS_def)
  ultimately show ?thesis
    using c o by (simp add: occupied_port_simps occupied_port_exists)
qed

text \<open>
  C3, amended. For every board id in [0,16), in every state: AddBoard succeeds, the handle
  is stored and the in-use bit set (\<^verbatim>\<open>BoardExists\<close> is not written); RemoveBoard of the
  same id then succeeds and the slot and the bit are clear. The port is then as it was
  before the add in every member but that slot and that bit, so it is as before exactly
  when the slot was empty and the bit clear beforehand. For an id outside [0,16) both
  calls fail and change nothing but the debug stream.
\<close>

theorem AddBoard_RemoveBoard_roundtrip:
  "(unat boardId < MAX_BOARDS \<and> BoardId (h board) = uint boardId \<longrightarrow>
      (case AddBoard this board p h of (r1, q, h1) \<Rightarrow>
         r1 \<and> BoardList q (unat boardId) = Some board \<and>
         bit (BoardInUseMask' q) (unat boardId) \<and> BoardExists q = BoardExists p \<and>
         (case RemoveBoard boardId q h1 of (r2, q', h2) \<Rightarrow>
            r2 \<and> BoardList q' (unat boardId) = None \<and>
            \<not> bit (BoardInUseMask' q') (unat boardId) \<and>
            q' = p\<lparr>BoardList := (BoardList p)(unat boardId := None),
                   BoardInUseMask' := BoardInUseMask' p AND NOT (push_bit (unat boardId) 1)\<rparr> \<and>
            (q' = p \<longleftrightarrow>
               BoardList p (unat boardId) = None \<and>
               \<not> bit (BoardInUseMask' p) (unat boardId))))) \<and>
   (BoardId (h board) < 0 \<or> int MAX_BOARDS \<le> BoardId (h board) \<longrightarrow>
      (case AddBoard this board p h of (r, q, h') \<Rightarrow>
         \<not> r \<and> q\<lparr>outStr := outStr p\<rparr> = p \<and> h' = h)) \<and>
   (MAX_BOARDS \<le> unat boardId \<longrightarrow>
      (case RemoveBoard boardId p h of (r, q, h') \<Rightarrow>
         \<not> r \<and> q\<lparr>outStr := outStr p\<rparr> = p \<and> h' = h))"
proof (intro conjI impI)
  assume a: "unat boardId < MAX_BOARDS \<and> BoardId (h board) = uint boardId"
  from a have k: "unat boardId < 16"
    by (simp add: MAX_BOARDS_def)
  then have "int (unat boardId) < 16"
    by linarith
  then have u: "uint boardId < 16"
    by (simp only: uint_nat)
  from a have id: "nat (BoardId (h board)) = unat boardId"
    by simp
  from a u have rng: "\<not> (BoardId (h board) < 0 \<or> int MAX_BOARDS \<le> BoardId (h board))"
    by (simp add: MAX_BOARDS_def)
  define q where "q = p\<lparr>BoardList := (BoardList p)(unat boardId := Some board),
      BoardInUseMask' := BoardInUseMask' p OR push_bit (unat boardId) 1,
      NumOfBoards' := NumOfBoards' p + 1\<rparr>"
  define h1 where "h1 = h(board := (h board)\<lparr>port := Some this\<rparr>)"
  define q' where "q' = q\<lparr>BoardInUseMask' := BoardInUseMask' q AND NOT (push_bit (unat boardId) 1),
      BoardList := (BoardList q)(unat boardId := None),
      NumOfBoards' := NumOfBoards' q - 1\<rparr>"
  define p' where "p' = p\<lparr>BoardList := (BoardList p)(unat boardId := None),
      BoardInUseMask' := BoardInUseMask' p AND NOT (push_bit (unat boardId) 1)\<rparr>"
  have add: "AddBoard this board p h = (True, q, h1)"
    unfolding AddBoard_def Let_def q_def h1_def id using rng by (simp only: if_False)
  have ql: "BoardList q (unat boardId) = Some board"
    by (simp add: q_def)
  have qb: "bit (BoardInUseMask' q) (unat boardId)"
    using k by (simp add: q_def mask_set_bit)
  have qe: "BoardExists q = BoardExists p"
    by (simp add: q_def)
  have rem: "RemoveBoard boardId q h1 = (True, q', h1(board := (h1 board)\<lparr>port := None\<rparr>))"
    using a ql by (simp add: RemoveBoard_def q'_def)
  have ql': "BoardList q' (unat boardId) = None"
    by (simp add: q'_def)
  have qb': "\<not> bit (BoardInUseMask' q') (unat boardId)"
    by (simp add: q'_def mask_clear_bit)
  have same: "q' = p'"
    by (simp add: q'_def q_def p'_def mask_set_then_clear)
  have pl': "BoardList p' (unat boardId) = None"
    by (simp add: p'_def)
  have pb': "\<not> bit (BoardInUseMask' p') (unat boardId)"
    by (simp add: p'_def mask_clear_bit)
  have restore: "p' = p"
    if "BoardList p (unat boardId) = None" and "\<not> bit (BoardInUseMask' p) (unat boardId)"
    using that by (simp add: p'_def mask_clear_idem fun_upd_idem)
  have iff: "p' = p \<longleftrightarrow>
      BoardList p (unat boardId) = None \<and> \<not> bit (BoardInUseMask' p) (unat boardId)"
    using pl' pb' restore by metis
  show "case AddBoard this board p h of (r1, q, h1) \<Rightarrow>
         r1 \<and> BoardList q (unat boardId) = Some board \<and>
         bit (BoardInUseMask' q) (unat boardId) \<and> BoardExists q = BoardExists p \<and>
         (case RemoveBoard boardId q h1 of (r2, q', h2) \<Rightarrow>
            r2 \<and> BoardList q' (unat boardId) = None \<and>
            \<not> bit (BoardInUseMask' q') (unat boardId) \<and>
            q' = p\<lparr>BoardList := (BoardList p)(unat boardId := None),
                   BoardInUseMask' := BoardInUseMask' p AND NOT (push_bit (unat boardId) 1)\<rparr> \<and>
            (q' = p \<longleftrightarrow>
               BoardList p (unat boardId) = None \<and>
               \<not> bit (BoardInUseMask' p) (unat boardId)))"
    unfolding add rem prod.case p'_def [symmetric]
    using ql qb qe ql' qb' same iff by simp
next
  assume "BoardId (h board) < 0 \<or> int MAX_BOARDS \<le> BoardId (h board)"
  then show "case AddBoard this board p h of (r, q, h') \<Rightarrow>
         \<not> r \<and> q\<lparr>outStr := outStr p\<rparr> = p \<and> h' = h"
    by (auto simp add: AddBoard_def Let_def)
next
  assume "MAX_BOARDS \<le> unat boardId"
  then show "case RemoveBoard boardId p h of (r, q, h') \<Rightarrow>
         \<not> r \<and> q\<lparr>outStr := outStr p\<rparr> = p \<and> h' = h"
    by (simp add: RemoveBoard_def)
qed

theorem AddBoard_RemoveBoard_roundtrip_witness:
  "fst (AddBoard 100 1 fresh_port example_boards) \<and>
   BoardList occupied_port 3 = Some 1 \<and>
   bit (BoardInUseMask' occupied_port) 3 \<and>
   fst (RemoveBoard 3 occupied_port occupied_boards) \<and>
   fst (snd (RemoveBoard 3 occupied_port occupied_boards)) = fresh_port \<and>
   fst (AddBoard 100 2 occupied_port occupied_boards) \<and>
   BoardList readded_port 3 = Some 2 \<and>
   bit (BoardInUseMask' readded_port) 3 \<and>
   fst (RemoveBoard 3 readded_port readded_boards) \<and>
   BoardList (fst (snd (RemoveBoard 3 readded_port readded_boards))) 3 = None \<and>
   \<not> bit (BoardInUseMask' (fst (snd (RemoveBoard 3 readded_port readded_boards)))) 3 \<and>
   fst (snd (RemoveBoard 3 readded_port readded_boards)) \<noteq> occupied_port \<and>
   \<not> fst (AddBoard 100 3 fresh_port example_boards) \<and>
   snd (snd (AddBoard 100 3 fresh_port example_boards)) = example_boards \<and>
   \<not> fst (RemoveBoard 16 fresh_port example_boards) \<and>
   snd (snd (RemoveBoard 16 fresh_port example_boards)) = example_boards"
proof -
  have e: "BoardId (example_boards 1) = uint (3 :: 8 word)"
    "BoardId (example_boards 3) = 16"
    by (simp_all add: example_boards_def)
  have o: "BoardId (occupied_boards 2) = uint (3 :: 8 word)"
    "BoardList occupied_port (unat (3 :: 8 word)) = Some 1"
    by (simp_all add: occupied_port_simps MAX_BOARDS_def)
  have f: "BoardList fresh_port (unat (3 :: 8 word)) = None"
    "\<not> bit (BoardInUseMask' fresh_port) (unat (3 :: 8 word))"
    by (simp_all add: fresh_port_simps MAX_BOARDS_def)
  have m: "unat (3 :: 8 word) < MAX_BOARDS" "MAX_BOARDS \<le> unat (16 :: 8 word)"
    by (simp_all add: MAX_BOARDS_def)
  show ?thesis
    using AddBoard_RemoveBoard_roundtrip [where boardId = 3 and h = example_boards and board = 1
        and p = fresh_port and this = 100]
      AddBoard_RemoveBoard_roundtrip [where boardId = 3 and h = occupied_boards and board = 2
        and p = occupied_port and this = 100]
      AddBoard_RemoveBoard_roundtrip [where boardId = 16 and h = example_boards and board = 3
        and p = fresh_port and this = 100]
      e o f m
    unfolding occupied_port_def [symmetric] occupied_boards_def [symmetric]
      readded_port_def readded_boards_def
    by (auto simp add: occupied_port_def occupied_boards_def split: prod.splits)
qed

subsection \<open>Port descriptors\<close>

lemma isdigit_not_isspace: "isdigit c \<Longrightarrow> \<not> isspace c"
  by (auto simp add: isdigit_def isspace_def)

lemma isdigit_not_sign: "isdigit c \<Longrightarrow> c \<noteq> CHR ''-'' \<and> c \<noteq> CHR ''+''"
  by (auto simp add: isdigit_def)

lemma sign_not_isspace: "\<not> isspace CHR ''-''" "\<not> isspace CHR ''+''"
  by (simp_all add: isspace_def)

lemma digit_of_char: "isdigit c \<Longrightarrow> (of_char c :: int) - 48 = int (digit_of c)"
  by (simp add: isdigit_def, elim disjE) (simp_all add: digit_of_def)

lemma foldl_digits_value:
  "\<forall>c \<in> set ds. isdigit c \<Longrightarrow>
   foldl (\<lambda>a c. 10 * a + (of_char c - 48)) (a :: int) ds =
     a * 10 ^ length ds + int (digits_value ds)"
proof (induction ds arbitrary: a)
  case Nil
  then show ?case by simp
next
  case (Cons c ds)
  from Cons.prems have d: "(of_char c :: int) - 48 = int (digit_of c)"
    by (simp add: digit_of_char)
  from Cons.prems have r: "\<forall>c \<in> set ds. isdigit c" by simp
  have "foldl (\<lambda>a c. 10 * a + (of_char c - 48)) (10 * a + (of_char c - 48)) ds =
      (10 * a + (of_char c - 48)) * 10 ^ length ds + int (digits_value ds)"
    using r by (rule Cons.IH)
  then have "foldl (\<lambda>a c. 10 * a + (of_char c - 48)) a (c # ds) =
      (10 * a + int (digit_of c)) * 10 ^ length ds + int (digits_value ds)"
    by (simp add: d)
  also have "\<dots> = a * 10 ^ length (c # ds) + int (digits_value (c # ds))"
    by (simp add: algebra_simps)
  finally show ?case .
qed

lemma dec_value_digits_value:
  "\<forall>c \<in> set ds. isdigit c \<Longrightarrow> dec_value ds = int (digits_value ds)"
  by (simp add: dec_value_def foldl_digits_value)

lemma int_of_long_strtol_value:
  "0 \<le> n \<Longrightarrow> n \<le> INT_MAX \<Longrightarrow> int_of_long (strtol_value n) = n"
  by (simp add: int_of_long_def strtol_value_def INT_MAX_def LONG_MIN_def LONG_MAX_def
      sint_sbintrunc' signed_take_bit_int_eq_self)

lemma sscanf_d_digits:
  assumes "ds \<noteq> []" and "\<forall>c \<in> set ds. isdigit c"
  shows "sscanf_d ds = Converted (int_of_long (strtol_value (int (digits_value ds))))"
proof -
  obtain d ds' where ds: "ds = d # ds'" using assms(1) by (cases ds) auto
  with assms(2) have d: "isdigit d" by simp
  have tw: "takeWhile isdigit ds = ds"
    using assms(2) by (simp add: takeWhile_eq_all_conv)
  have dw: "dropWhile isspace ds = ds"
    using d ds by (simp add: isdigit_not_isspace)
  from d ds have hd: "hd ds \<noteq> CHR ''-''" "hd ds \<noteq> CHR ''+''"
    using isdigit_not_sign by auto
  have "dec_value ds = int (digits_value ds)"
    using assms(2) by (rule dec_value_digits_value)
  then show ?thesis
    using assms(1) by (simp add: sscanf_d_def Let_def dw hd tw)
qed

lemma leading_numeric_scans:
  assumes "leading_numeric s"
  shows "sscanf_d s \<noteq> NoConversion"
proof -
  from assms obtain ws sg ds rest where s: "s = ws @ sg @ ds @ rest"
    and ws: "\<forall>c \<in> set ws. isspace c" and sg: "sg = [] \<or> sg = ''+'' \<or> sg = ''-''"
    and ds: "ds \<noteq> []" "\<forall>c \<in> set ds. isdigit c"
    by (auto simp add: leading_numeric_def)
  obtain d ds' where dd: "ds = d # ds'" using ds(1) by (cases ds) auto
  with ds(2) have d: "isdigit d" by simp
  have "dropWhile isspace s = dropWhile isspace (sg @ ds @ rest)"
    using ws by (simp add: s dropWhile_append2)
  also have "\<dots> = sg @ ds @ rest"
    using sg d dd by (auto simp add: isdigit_not_isspace sign_not_isspace)
  finally have s1: "dropWhile isspace s = sg @ ds @ rest" .
  have tw: "takeWhile isdigit (ds @ rest) \<noteq> []"
    using d dd by simp
  from sg show ?thesis
  proof (elim disjE)
    assume "sg = []"
    then show ?thesis
      using s1 tw d dd isdigit_not_sign [OF d]
      by (auto simp add: sscanf_d_def Let_def)
  next
    assume "sg = ''+''"
    then show ?thesis
      using s1 tw by (auto simp add: sscanf_d_def Let_def)
  next
    assume "sg = ''-''"
    then show ?thesis
      using s1 tw by (auto simp add: sscanf_d_def Let_def)
  qed
qed

lemma scans_leading_numeric:
  assumes "sscanf_d s \<noteq> NoConversion"
  shows "leading_numeric s"
proof -
  define s1 where "s1 = dropWhile isspace s"
  define sg where "sg = (if s1 \<noteq> [] \<and> (hd s1 = CHR ''-'' \<or> hd s1 = CHR ''+'') then [hd s1] else [])"
  define s2 where "s2 = (if s1 \<noteq> [] \<and> (hd s1 = CHR ''-'' \<or> hd s1 = CHR ''+'') then tl s1 else s1)"
  have ne: "takeWhile isdigit s2 \<noteq> []"
    using assms by (auto simp add: sscanf_d_def Let_def s1_def s2_def split: if_splits)
  have "s = takeWhile isspace s @ s1" by (simp add: s1_def)
  moreover have "s1 = sg @ s2" by (auto simp add: sg_def s2_def)
  moreover have "s2 = takeWhile isdigit s2 @ dropWhile isdigit s2" by simp
  ultimately have "s = takeWhile isspace s @ sg @ takeWhile isdigit s2 @ dropWhile isdigit s2"
    by simp
  moreover have "\<forall>c \<in> set (takeWhile isspace s). isspace c"
    by (auto dest: set_takeWhileD)
  moreover have "\<forall>c \<in> set (takeWhile isdigit s2). isdigit c"
    by (auto dest: set_takeWhileD)
  moreover have "sg = [] \<or> sg = ''+'' \<or> sg = ''-''" by (auto simp add: sg_def)
  ultimately show ?thesis
    unfolding leading_numeric_def using ne by blast
qed

lemma sscanf_d_NoConversion_iff: "sscanf_d s = NoConversion \<longleftrightarrow> \<not> leading_numeric s"
  using leading_numeric_scans scans_leading_numeric by blast

lemma digits_no_prefix:
  assumes "ds \<noteq> []" and "\<forall>c \<in> set ds. isdigit c"
  shows "take 2 ds \<noteq> ''fw'' \<and> take 3 ds \<noteq> ''eth'' \<and> take 3 ds \<noteq> ''udp''"
proof -
  obtain d ds' where "ds = d # ds'" using assms(1) by (cases ds) auto
  with assms(2) show ?thesis by (auto simp add: isdigit_def)
qed

text \<open>
  C5, as stated, fails for digits whose number an \<^verbatim>\<open>int\<close> cannot hold: "fw2147483648"
  is accepted with the port number -2147483648.
\<close>

theorem ParseOptions_numeric_counterexample:
  "digits_value ''2147483648'' = 2147483648 \<and>
   ParseOptions ''fw2147483648'' \<lparr>portType = 9, portNum = 0, IPaddr = []\<rparr> =
     (True, \<lparr>portType = PORT_FIREWIRE, portNum = - 2147483648, IPaddr = []\<rparr>)"
proof -
  have n: "digits_value ''2147483648'' = 2147483648"
    by (simp add: digit_of_def)
  have "sscanf_d ''2147483648'' =
      Converted (int_of_long (strtol_value (int (digits_value ''2147483648''))))"
    by (rule sscanf_d_digits) (simp_all add: isdigit_def)
  then have "sscanf_d ''2147483648'' = Converted (int_of_long (strtol_value 2147483648))"
    by (simp only: n) simp
  then have "sscanf_d ''2147483648'' = Converted (- 2147483648)"
    by (simp add: int_of_long_def strtol_value_def LONG_MIN_def LONG_MAX_def)
  then show ?thesis
    using n by (simp add: ParseOptions_def scan_portNum_def)
qed

text \<open>
  C5, amended. "fw" and digits give the native bus, "eth" and digits the raw-frame
  transport, and digits alone the native bus; the port number is the number the digits
  denote when it is at most \<^verbatim>\<open>INT_MAX\<close>, and in every case that number as the library
  stores it (saturated to a 64-bit \<^verbatim>\<open>long\<close>, then cut to its low 32 bits), the call
  returning true. A descriptor with none of the three prefixes and no numeric leading
  field is a failure.
\<close>

theorem ParseOptions_numeric:
  "(ds \<noteq> [] \<and> (\<forall>c \<in> set ds. isdigit c) \<and> int (digits_value ds) \<le> INT_MAX \<longrightarrow>
      ParseOptions (''fw'' @ ds) v =
        (True, v\<lparr>portType := PORT_FIREWIRE, portNum := int (digits_value ds)\<rparr>) \<and>
      ParseOptions (''eth'' @ ds) v =
        (True, v\<lparr>portType := PORT_ETH_RAW, portNum := int (digits_value ds)\<rparr>) \<and>
      ParseOptions ds v =
        (True, v\<lparr>portType := PORT_FIREWIRE, portNum := int (digits_value ds)\<rparr>)) \<and>
   (ds \<noteq> [] \<and> (\<forall>c \<in> set ds. isdigit c) \<longrightarrow>
      ParseOptions (''fw'' @ ds) v =
        (True, v\<lparr>portType := PORT_FIREWIRE,
                 portNum := int_of_long (strtol_value (int (digits_value ds)))\<rparr>) \<and>
      ParseOptions (''eth'' @ ds) v =
        (True, v\<lparr>portType := PORT_ETH_RAW,
                 portNum := int_of_long (strtol_value (int (digits_value ds)))\<rparr>) \<and>
      ParseOptions ds v =
        (True, v\<lparr>portType := PORT_FIREWIRE,
                 portNum := int_of_long (strtol_value (int (digits_value ds)))\<rparr>)) \<and>
   (take 2 arg \<noteq> ''fw'' \<and> take 3 arg \<noteq> ''eth'' \<and> take 3 arg \<noteq> ''udp'' \<and>
    \<not> leading_numeric arg \<longrightarrow>
      ParseOptions arg v = (False, v\<lparr>portType := PORT_FIREWIRE\<rparr>))"
proof -
  have stored: "ParseOptions (''fw'' @ ds) v =
        (True, v\<lparr>portType := PORT_FIREWIRE,
                 portNum := int_of_long (strtol_value (int (digits_value ds)))\<rparr>) \<and>
      ParseOptions (''eth'' @ ds) v =
        (True, v\<lparr>portType := PORT_ETH_RAW,
                 portNum := int_of_long (strtol_value (int (digits_value ds)))\<rparr>) \<and>
      ParseOptions ds v =
        (True, v\<lparr>portType := PORT_FIREWIRE,
                 portNum := int_of_long (strtol_value (int (digits_value ds)))\<rparr>)"
    if a: "ds \<noteq> [] \<and> (\<forall>c \<in> set ds. isdigit c)"
  proof -
    from a have sc: "sscanf_d ds = Converted (int_of_long (strtol_value (int (digits_value ds))))"
      by (simp add: sscanf_d_digits)
    from a have np: "take 2 ds \<noteq> ''fw'' \<and> take 3 ds \<noteq> ''eth'' \<and> take 3 ds \<noteq> ''udp''"
      by (simp add: digits_no_prefix)
    have "ParseOptions (''fw'' @ ds) v =
        (True, v\<lparr>portType := PORT_FIREWIRE,
                 portNum := int_of_long (strtol_value (int (digits_value ds)))\<rparr>)"
      by (simp add: ParseOptions_def scan_portNum_def sc)
    moreover have "ParseOptions (''eth'' @ ds) v =
        (True, v\<lparr>portType := PORT_ETH_RAW,
                 portNum := int_of_long (strtol_value (int (digits_value ds)))\<rparr>)"
      by (simp add: ParseOptions_def scan_portNum_def sc)
    moreover have "ParseOptions ds v =
        (True, v\<lparr>portType := PORT_FIREWIRE,
                 portNum := int_of_long (strtol_value (int (digits_value ds)))\<rparr>)"
      using np by (simp add: ParseOptions_def scan_portNum_def sc)
    ultimately show ?thesis by simp
  qed
  have fits: "int_of_long (strtol_value (int (digits_value ds))) = int (digits_value ds)"
    if "int (digits_value ds) \<le> INT_MAX"
    using that by (simp add: int_of_long_strtol_value)
  have fails: "ParseOptions arg v = (False, v\<lparr>portType := PORT_FIREWIRE\<rparr>)"
    if "take 2 arg \<noteq> ''fw'' \<and> take 3 arg \<noteq> ''eth'' \<and> take 3 arg \<noteq> ''udp'' \<and>
      \<not> leading_numeric arg"
    using that
    by (simp add: ParseOptions_def scan_portNum_def sscanf_d_NoConversion_iff [symmetric])
  show ?thesis
    using stored fits fails by metis
qed

theorem ParseOptions_numeric_witness:
  "ParseOptions ''fw23'' \<lparr>portType = 9, portNum = 0, IPaddr = []\<rparr> =
     (True, \<lparr>portType = PORT_FIREWIRE, portNum = 23, IPaddr = []\<rparr>) \<and>
   ParseOptions ''eth305'' \<lparr>portType = 9, portNum = 0, IPaddr = []\<rparr> =
     (True, \<lparr>portType = PORT_ETH_RAW, portNum = 305, IPaddr = []\<rparr>) \<and>
   ParseOptions ''17'' \<lparr>portType = 9, portNum = 0, IPaddr = []\<rparr> =
     (True, \<lparr>portType = PORT_FIREWIRE, portNum = 17, IPaddr = []\<rparr>) \<and>
   ParseOptions ''fw99999999999'' \<lparr>portType = 9, portNum = 0, IPaddr = []\<rparr> =
     (True, \<lparr>portType = PORT_FIREWIRE, portNum = 1215752191, IPaddr = []\<rparr>) \<and>
   ParseOptions ''99999999999999999999'' \<lparr>portType = 9, portNum = 0, IPaddr = []\<rparr> =
     (True, \<lparr>portType = PORT_FIREWIRE, portNum = - 1, IPaddr = []\<rparr>) \<and>
   ParseOptions ''xyz'' \<lparr>portType = 9, portNum = 0, IPaddr = []\<rparr> =
     (False, \<lparr>portType = PORT_FIREWIRE, portNum = 0, IPaddr = []\<rparr>)"
proof -
  have x: "\<not> leading_numeric ''xyz''"
    by (simp add: sscanf_d_NoConversion_iff [symmetric] sscanf_d_def isspace_def isdigit_def)
  have d: "digits_value ''23'' = 23" "digits_value ''305'' = 305" "digits_value ''17'' = 17"
    "digits_value ''99999999999'' = 99999999999"
    "digits_value ''99999999999999999999'' = 99999999999999999999"
    by (simp_all add: digit_of_def)
  show ?thesis
    using ParseOptions_numeric [of "''23''" "\<lparr>portType = 9, portNum = 0, IPaddr = []\<rparr>" "''xyz''"]
      ParseOptions_numeric [of "''305''" "\<lparr>portType = 9, portNum = 0, IPaddr = []\<rparr>" "''xyz''"]
      ParseOptions_numeric [of "''17''" "\<lparr>portType = 9, portNum = 0, IPaddr = []\<rparr>" "''xyz''"]
      ParseOptions_numeric [of "''99999999999''" "\<lparr>portType = 9, portNum = 0, IPaddr = []\<rparr>" "''xyz''"]
      ParseOptions_numeric [of "''99999999999999999999''"
        "\<lparr>portType = 9, portNum = 0, IPaddr = []\<rparr>" "''xyz''"] x
    by (simp add: isdigit_def d INT_MAX_def int_of_long_def strtol_value_def LONG_MIN_def
        LONG_MAX_def del: digits_value.simps)
qed

lemma take_udp: "take 3 arg = ''udp'' \<Longrightarrow> take 2 arg \<noteq> ''fw'' \<and> take 3 arg \<noteq> ''eth''"
  by (cases arg) auto

lemma ParseOptions_udp:
  "take 3 arg = ''udp'' \<Longrightarrow>
   ParseOptions arg v =
     (True, if 8 \<le> length (drop 3 arg)
            then v\<lparr>portType := PORT_ETH_UDP, IPaddr := drop 5 arg\<rparr>
            else v\<lparr>portType := PORT_ETH_UDP\<rparr>)"
  using take_udp [of arg] by (simp add: ParseOptions_def)

text \<open>
  C2. For "udp192.168.1.1" the call succeeds with the datagram transport, but the address
  it stores starts at offset 5 of the descriptor, two characters into the address that
  follows "udp": "2.168.1.1".
\<close>

theorem ParseOptions_udp_offset:
  "ParseOptions ''udp192.168.1.1'' v =
     (True, v\<lparr>portType := PORT_ETH_UDP, IPaddr := ''2.168.1.1''\<rparr>)"
  by (simp add: ParseOptions_def)

end
